theory Spec2Isabelle
  imports Main "HOL-Library.AList"
begin

section \<open>Identifiers, clock readings and errors\<close>

text \<open>
  UUIDs are opaque identifiers; they are modelled as natural numbers, and the
  generator \<^verbatim>\<open>uuidv4()\<close> as a counter that never repeats a value.  A clock reading
  (\<^verbatim>\<open>new Date().toISOString()\<close>, \<^verbatim>\<open>Date.now()\<close>) is a number handed to the operation
  by its caller; the readings one membership call takes are the same instant.

  A JavaScript \<^verbatim>\<open>Error\<close> carries its message and, for driver errors, an optional
  \<^verbatim>\<open>code\<close>.  The error kinds of the specification are the messages the source throws.
\<close>

type_synonym uuid = nat
type_synonym timestamp = nat

datatype js_error = Error (message: string) (code: "string option")

definition AlreadyMember :: js_error where
  "AlreadyMember = Error ''User is already a member of this project'' None"

definition LastAdminViolation_remove :: js_error where
  "LastAdminViolation_remove = Error ''Cannot remove the last admin from a project'' None"

definition LastAdminViolation_update :: js_error where
  "LastAdminViolation_update = Error ''Cannot change the role of the last admin'' None"

text \<open>
  Four errors come from the ORM and the JavaScript engine rather than from a \<^verbatim>\<open>throw\<close> of
  the repository; their constants carry the library's wording as far as it is fixed.
  \<^item> A query on a relation the model class does not declare is refused.
  \<^item> \<^verbatim>\<open>patchAndFetch\<close> is refused on a query that was not started from a model instance.
  \<^item> Reading a property of \<^verbatim>\<open>undefined\<close> is a \<^verbatim>\<open>TypeError\<close>.
  \<^item> An object that violates the model's \<^verbatim>\<open>jsonSchema\<close> is refused with a validation error.
\<close>

definition RelationNotFound :: "string \<Rightarrow> js_error" where
  "RelationNotFound relation = Error (''model class has no relation '' @ relation) None"

definition PatchAndFetchOnStaticQuery :: js_error where
  "PatchAndFetchOnStaticQuery = Error ''patchAndFetch can only be called for instance operations'' None"

definition TypeError_undefined :: "string \<Rightarrow> js_error" where
  "TypeError_undefined property =
     Error (''Cannot read properties of undefined (reading '' @ property @ '')'') None"

definition ValidationError :: "string \<Rightarrow> js_error" where
  "ValidationError property = Error (property @ '': must be equal to one of the allowed values'') None"

text \<open>
  \<^verbatim>\<open>config/database.js\<close> spreads \<^verbatim>\<open>knexSnakeCaseMappers()\<close> into the configuration of every
  environment, and \<^verbatim>\<open>BaseModel.js\<close> binds all models to that Knex instance.  Identifiers
  sent to the database (the columns of \<^verbatim>\<open>where\<close>, \<^verbatim>\<open>patch\<close> and \<^verbatim>\<open>insert\<close>) reach the
  snake-case columns, but the rows that come back carry camelCase property names
  (\<^verbatim>\<open>isActive\<close>, \<^verbatim>\<open>connectionConfig\<close>).  So a property whose name has an underscore, read
  from a fetched row, is \<^verbatim>\<open>undefined\<close>, whatever the column holds; names without an
  underscore (\<^verbatim>\<open>id\<close>, \<^verbatim>\<open>role\<close>, \<^verbatim>\<open>type\<close>) read the column.
\<close>

definition fetched_snake_case_property :: "'a \<Rightarrow> 'a option" where
  "fetched_snake_case_property column_value = None"

text \<open>The relations each model class declares in its \<^verbatim>\<open>relationMappings\<close>.\<close>

datatype model_class =
    BaseModel | User | Project | ProjectMember | ProjectDatabase
  | ProjectActivity | ProjectVersion | ProjectTemplate

fun relationMappings :: "model_class \<Rightarrow> string list" where
  "relationMappings BaseModel = []"
| "relationMappings User = [''projects'']"
| "relationMappings Project =
     [''createdBy'', ''members'', ''activities'', ''versions'', ''template'', ''databases'', ''queries'']"
| "relationMappings ProjectMember = [''project'', ''user'', ''invitedBy'']"
| "relationMappings ProjectDatabase = [''project'', ''createdBy'']"
| "relationMappings ProjectActivity = [''project'', ''user'']"
| "relationMappings ProjectVersion = [''project'', ''createdBy'']"
| "relationMappings ProjectTemplate = [''createdBy'', ''updatedBy'', ''projects'']"


section \<open>ProjectMember: the membership table\<close>

text \<open>
  One row of \<^verbatim>\<open>project_members\<close> (the \<^verbatim>\<open>jsonSchema\<close> of \<^verbatim>\<open>ProjectMember\<close>).  The fields
  carry the prefix \<open>pm_\<close> because \<open>id\<close> is a HOL constant and several tables share
  column names.  The free-form \<^verbatim>\<open>metadata\<close> object plays no part in any operation below
  and is left out.
\<close>

record project_member =
  pm_id :: uuid
  pm_project_id :: uuid
  pm_user_id :: uuid
  pm_role :: string
  pm_permissions :: "string list"
  pm_is_active :: bool
  pm_invited_by :: "uuid option"
  pm_invited_at :: "timestamp option"
  pm_joined_at :: "timestamp option"
  pm_last_accessed_at :: "timestamp option"
  pm_created_at :: timestamp
  pm_updated_at :: timestamp

text \<open>The table together with the state of the UUID generator.\<close>

record member_db =
  members :: "project_member list"
  next_uuid :: nat

definition empty_member_db :: member_db where
  "empty_member_db = \<lparr>members = [], next_uuid = 0\<rparr>"

subsection \<open>The static role table \<^verbatim>\<open>ProjectMember.ROLES\<close>\<close>

definition ROLE_ADMIN :: "string \<times> string list" where
  "ROLE_ADMIN = (''admin'',
     [''project:read'', ''project:update'', ''project:delete'', ''project:export'', ''project:import'',
      ''member:list'', ''member:add'', ''member:remove'', ''member:update'',
      ''query:create'', ''query:read'', ''query:update'', ''query:delete'', ''query:execute'',
      ''query:export'', ''query:import'',
      ''database:create'', ''database:read'', ''database:update'', ''database:delete'', ''database:test'',
      ''dashboard:create'', ''dashboard:read'', ''dashboard:update'', ''dashboard:delete'',
      ''schedule:create'', ''schedule:read'', ''schedule:update'', ''schedule:delete'', ''schedule:execute'',
      ''api_key:create'', ''api_key:read'', ''api_key:update'', ''api_key:delete'',
      ''webhook:create'', ''webhook:read'', ''webhook:update'', ''webhook:delete'',
      ''settings:read'', ''settings:update'',
      ''activity:read''])"

definition ROLE_EDITOR :: "string \<times> string list" where
  "ROLE_EDITOR = (''editor'',
     [''project:read'', ''project:export'',
      ''member:list'',
      ''query:create'', ''query:read'', ''query:update'', ''query:delete'', ''query:execute'', ''query:export'',
      ''database:read'', ''database:test'',
      ''dashboard:create'', ''dashboard:read'', ''dashboard:update'', ''dashboard:delete'',
      ''schedule:create'', ''schedule:read'', ''schedule:update'', ''schedule:delete'', ''schedule:execute'',
      ''api_key:read'',
      ''webhook:read'',
      ''settings:read'',
      ''activity:read''])"

definition ROLE_VIEWER :: "string \<times> string list" where
  "ROLE_VIEWER = (''viewer'',
     [''project:read'',
      ''member:list'',
      ''query:read'', ''query:execute'',
      ''database:read'',
      ''dashboard:read'',
      ''schedule:read'',
      ''settings:read'',
      ''activity:read''])"

definition ROLE_CUSTOM :: "string \<times> string list" where
  "ROLE_CUSTOM = (''custom'', [])"

text \<open>\<^verbatim>\<open>Object.values(ProjectMember.ROLES)\<close>, in declaration order.\<close>

definition ROLES :: "(string \<times> string list) list" where
  "ROLES = [ROLE_ADMIN, ROLE_EDITOR, ROLE_VIEWER, ROLE_CUSTOM]"

text \<open>
  \<^verbatim>\<open>getRolePermissions()\<close>: the permissions of the first role whose key is the member's
  role, the empty list when no role has that key.
\<close>

definition getRolePermissions :: "string \<Rightarrow> string list" where
  "getRolePermissions r =
     (case find (\<lambda>d. fst d = r) ROLES of Some d \<Rightarrow> snd d | None \<Rightarrow> [])"

subsection \<open>Queries\<close>

text \<open>
  \<^verbatim>\<open>getByProjectAndUser\<close>: \<^verbatim>\<open>.where('project_id', ..).where('user_id', ..).first()\<close>.  The
  query has no filter on \<^verbatim>\<open>is_active\<close> and no ordering; the first row in table order is taken.
\<close>

definition member_key :: "uuid \<Rightarrow> uuid \<Rightarrow> project_member \<Rightarrow> bool" where
  "member_key p u r \<longleftrightarrow> pm_project_id r = p \<and> pm_user_id r = u"

definition getByProjectAndUser :: "project_member list \<Rightarrow> uuid \<Rightarrow> uuid \<Rightarrow> project_member option" where
  "getByProjectAndUser t p u = find (member_key p u) t"

text \<open>
  The query both mutators run first: the rows of the project with role \<^verbatim>\<open>admin\<close> and
  \<^verbatim>\<open>is_active = true\<close>.
\<close>

definition is_active_admin :: "uuid \<Rightarrow> project_member \<Rightarrow> bool" where
  "is_active_admin p r \<longleftrightarrow> pm_project_id r = p \<and> pm_role r = ''admin'' \<and> pm_is_active r"

definition active_admins :: "project_member list \<Rightarrow> uuid \<Rightarrow> project_member list" where
  "active_admins t p = filter (is_active_admin p) t"

text \<open>\<^verbatim>\<open>member?.role === ProjectMember.ROLES.ADMIN.key\<close>: false when no row was found.\<close>

definition member_is_admin :: "project_member option \<Rightarrow> bool" where
  "member_is_admin m = (case m of None \<Rightarrow> False | Some r \<Rightarrow> pm_role r = ''admin'')"

text \<open>
  A \<^verbatim>\<open>patch\<close> on a \<^verbatim>\<open>where\<close> query rewrites every matching row and leaves the others;
  its result is the number of rows it matched.
\<close>

definition patch_where :: "('r \<Rightarrow> bool) \<Rightarrow> ('r \<Rightarrow> 'r) \<Rightarrow> 'r list \<Rightarrow> 'r list" where
  "patch_where c f t = map (\<lambda>r. if c r then f r else r) t"

definition affected :: "('r \<Rightarrow> bool) \<Rightarrow> 'r list \<Rightarrow> nat" where
  "affected c t = length (filter c t)"

subsection \<open>\<^verbatim>\<open>removeMember(projectId, userId)\<close>\<close>

definition removeMember ::
  "member_db \<Rightarrow> uuid \<Rightarrow> uuid \<Rightarrow> timestamp \<Rightarrow> js_error + (nat \<times> member_db)" where
  "removeMember db p u now =
     (let admins = active_admins (members db) p;
          member = getByProjectAndUser (members db) p u
      in if member_is_admin member \<and> length admins \<le> 1
         then Inl LastAdminViolation_remove
         else Inr (affected (member_key p u) (members db),
                   db\<lparr>members := patch_where (member_key p u)
                          (\<lambda>r. r\<lparr>pm_is_active := False, pm_updated_at := now\<rparr>) (members db)\<rparr>))"

text \<open>
  \<^verbatim>\<open>removeMember\<close> awaits its two reads and then awaits its patch, outside any transaction;
  other requests run at each \<^verbatim>\<open>await\<close>.  The same body, with the table the reads saw and
  the table the patch finds kept apart; \<^verbatim>\<open>removeMember\<close> is the case where they are the
  same table.
\<close>

definition removeMember_interleaved ::
  "member_db \<Rightarrow> member_db \<Rightarrow> uuid \<Rightarrow> uuid \<Rightarrow> timestamp \<Rightarrow> js_error + (nat \<times> member_db)" where
  "removeMember_interleaved db_read db_write p u now =
     (let admins = active_admins (members db_read) p;
          member = getByProjectAndUser (members db_read) p u
      in if member_is_admin member \<and> length admins \<le> 1
         then Inl LastAdminViolation_remove
         else Inr (affected (member_key p u) (members db_write),
                   db_write\<lparr>members := patch_where (member_key p u)
                          (\<lambda>r. r\<lparr>pm_is_active := False, pm_updated_at := now\<rparr>) (members db_write)\<rparr>))"

subsection \<open>\<^verbatim>\<open>updateMember(projectId, userId, role, customPermissions)\<close>\<close>

text \<open>
  After the last-admin check the function calls
  \<^verbatim>\<open>this.query().where(..).where(..).patchAndFetch({ role, permissions, updated_at })\<close> on the
  static query of the class.  \<^verbatim>\<open>patchAndFetch\<close> exists for the query of one instance
  (\<^verbatim>\<open>$query()\<close>, as \<^verbatim>\<open>addMember\<close> uses it) and refuses any other query before anything is
  sent to the database: every call that passes the check throws and writes nothing.
\<close>

definition updateMember ::
  "member_db \<Rightarrow> uuid \<Rightarrow> uuid \<Rightarrow> string \<Rightarrow> string list \<Rightarrow> timestamp
     \<Rightarrow> js_error + (project_member option \<times> member_db)" where
  "updateMember db p u role customPermissions now =
     (if role \<noteq> ''admin'' \<and>
         member_is_admin (getByProjectAndUser (members db) p u) \<and>
         length (active_admins (members db) p) \<le> 1
      then Inl LastAdminViolation_update
      else Inl PatchAndFetchOnStaticQuery)"

subsection \<open>\<^verbatim>\<open>addMember(projectId, userId, role, invitedBy, customPermissions)\<close>\<close>

text \<open>
  The role of a row must be one of the keys of \<^verbatim>\<open>ROLES\<close> (the \<^verbatim>\<open>enum\<close> of the
  \<^verbatim>\<open>jsonSchema\<close>); a patch or an insert with another role is refused by the validation.
\<close>

definition role_enum :: "string list" where
  "role_enum = map fst ROLES"

text \<open>
  Reactivation patches the row found, through its own \<^verbatim>\<open>$query()\<close>, that is by \<^verbatim>\<open>id\<close>.
  The patch object is \<^verbatim>\<open>{ role, is_active: true, invited_by, invited_at, joined_at: null,
  last_accessed_at: null, permissions: role === 'custom' ? customPermissions : undefined,
  updated_at }\<close>; a key whose value is \<^verbatim>\<open>undefined\<close> is not written.
\<close>

definition reactivate ::
  "string \<Rightarrow> uuid \<Rightarrow> string list \<Rightarrow> timestamp \<Rightarrow> project_member \<Rightarrow> project_member" where
  "reactivate role invitedBy customPermissions now r =
     r\<lparr>pm_role := role,
       pm_is_active := True,
       pm_invited_by := Some invitedBy,
       pm_invited_at := Some now,
       pm_joined_at := None,
       pm_last_accessed_at := None,
       pm_permissions := (if role = ''custom'' then customPermissions else pm_permissions r),
       pm_updated_at := now\<rparr>"

text \<open>
  \<^verbatim>\<open>$beforeInsert\<close>: the timestamps are set, and permissions that are missing or empty are
  replaced by the role's defaults.  The argument is the \<^verbatim>\<open>permissions\<close> value of the object
  being inserted (\<open>None\<close> for \<^verbatim>\<open>undefined\<close>).
\<close>

definition beforeInsert_permissions :: "string \<Rightarrow> string list option \<Rightarrow> string list" where
  "beforeInsert_permissions role perms =
     (case perms of
        None \<Rightarrow> getRolePermissions role
      | Some ps \<Rightarrow> if length ps = 0 then getRolePermissions role else ps)"

definition new_member ::
  "uuid \<Rightarrow> uuid \<Rightarrow> uuid \<Rightarrow> string \<Rightarrow> uuid \<Rightarrow> string list \<Rightarrow> timestamp \<Rightarrow> project_member" where
  "new_member i p u role invitedBy customPermissions now =
     \<lparr>pm_id = i, pm_project_id = p, pm_user_id = u, pm_role = role,
      pm_permissions = beforeInsert_permissions role
                         (if role = ''custom'' then Some customPermissions else None),
      pm_is_active = True,
      pm_invited_by = Some invitedBy, pm_invited_at = Some now,
      pm_joined_at = None, pm_last_accessed_at = None,
      pm_created_at = now, pm_updated_at = now\<rparr>"

text \<open>
  The test \<^verbatim>\<open>if (existingMember.is_active)\<close> reads a snake-case property of a fetched row:
  it is \<^verbatim>\<open>undefined\<close>, the test is false for every row, and the function goes on to the
  reactivation patch also when the stored row is active.
\<close>

definition addMember ::
  "member_db \<Rightarrow> uuid \<Rightarrow> uuid \<Rightarrow> string \<Rightarrow> uuid \<Rightarrow> string list \<Rightarrow> timestamp
     \<Rightarrow> js_error + (project_member \<times> member_db)" where
  "addMember db p u role invitedBy customPermissions now =
     (case getByProjectAndUser (members db) p u of
        Some existingMember \<Rightarrow>
          if fetched_snake_case_property (pm_is_active existingMember) = Some True
          then Inl AlreadyMember
          else if role \<notin> set role_enum then Inl (ValidationError ''role'')
          else Inr (reactivate role invitedBy customPermissions now existingMember,
                    db\<lparr>members := patch_where (\<lambda>r. pm_id r = pm_id existingMember)
                           (reactivate role invitedBy customPermissions now) (members db)\<rparr>)
      | None \<Rightarrow>
          if role \<notin> set role_enum then Inl (ValidationError ''role'')
          else
            let row = new_member (next_uuid db) p u role invitedBy customPermissions now
            in Inr (row, \<lparr>members = members db @ [row], next_uuid = Suc (next_uuid db)\<rparr>))"

subsection \<open>Sequences of membership calls\<close>

text \<open>A call that throws leaves the table as it was.\<close>

datatype member_call =
    AddMember uuid uuid string uuid "string list" timestamp
  | RemoveMember uuid uuid timestamp
  | UpdateMember uuid uuid string "string list" timestamp

fun member_call_step :: "member_db \<Rightarrow> member_call \<Rightarrow> member_db" where
  "member_call_step db (AddMember p u role invitedBy cps now) =
     (case addMember db p u role invitedBy cps now of Inl e \<Rightarrow> db | Inr (m, db') \<Rightarrow> db')"
| "member_call_step db (RemoveMember p u now) =
     (case removeMember db p u now of Inl e \<Rightarrow> db | Inr (n, db') \<Rightarrow> db')"
| "member_call_step db (UpdateMember p u role cps now) =
     (case updateMember db p u role cps now of Inl e \<Rightarrow> db | Inr (m, db') \<Rightarrow> db')"

definition member_calls :: "member_db \<Rightarrow> member_call list \<Rightarrow> member_db" where
  "member_calls db cs = foldl member_call_step db cs"

definition admin_count :: "member_db \<Rightarrow> uuid \<Rightarrow> nat" where
  "admin_count db p = length (active_admins (members db) p)"


subsection \<open>Well-formed tables and example tables\<close>

text \<open>
  A table is well formed when no two rows share an identifier, no two rows share the pair
  (project, user), and every identifier in use was handed out by the generator.  The empty
  table is well formed and the three operations keep tables well formed (shown below), so
  every table they can build is.
\<close>

definition member_pair :: "project_member \<Rightarrow> uuid \<times> uuid" where
  "member_pair r = (pm_project_id r, pm_user_id r)"

definition wf_members :: "member_db \<Rightarrow> bool" where
  "wf_members db \<longleftrightarrow>
     distinct (map pm_id (members db)) \<and>
     distinct (map member_pair (members db)) \<and>
     (\<forall>i \<in> set (map pm_id (members db)). i < next_uuid db)"

text \<open>
  The calls that are \<^verbatim>\<open>addMember\<close> calls.
\<close>

fun is_addMember :: "member_call \<Rightarrow> bool" where
  "is_addMember (AddMember p u role ib cps now) = True"
| "is_addMember (RemoveMember p u now) = False"
| "is_addMember (UpdateMember p u role cps now) = False"

text \<open>
  Example tables, each built by the operations themselves: project 1 with administrator
  10 alone; with administrators 10 and 11; with administrator 10 and editor 11; and with
  administrators 10 and 11 after 11 has been removed again.
\<close>

definition sole_admin_db :: member_db where
  "sole_admin_db = member_calls empty_member_db [AddMember 1 10 ''admin'' 10 [] 100]"

definition two_admins_db :: member_db where
  "two_admins_db = member_calls empty_member_db
     [AddMember 1 10 ''admin'' 10 [] 100, AddMember 1 11 ''admin'' 10 [] 101]"

definition editor_db :: member_db where
  "editor_db = member_calls empty_member_db
     [AddMember 1 10 ''admin'' 10 [] 100, AddMember 1 11 ''editor'' 10 [] 101]"

definition removed_admin_db :: member_db where
  "removed_admin_db = member_calls empty_member_db
     [AddMember 1 10 ''admin'' 10 [] 100, AddMember 1 11 ''admin'' 10 [] 101,
      RemoveMember 1 11 102]"


section \<open>Role checks: \<^verbatim>\<open>authorizeProject\<close> and \<^verbatim>\<open>BaseModel.checkPermission\<close>\<close>

text \<open>
  Both functions build the same object literal \<^verbatim>\<open>{ user: 1, editor: 2, admin: 3 }\<close> and
  index it with a role string.  A key that is not in the literal reads as \<^verbatim>\<open>undefined\<close>,
  and every numeric comparison with \<^verbatim>\<open>undefined\<close> is false.
\<close>

definition roleHierarchy :: "string \<Rightarrow> nat option" where
  "roleHierarchy = map_of [(''user'', 1), (''editor'', 2), (''admin'', 3)]"


definition js_ge :: "nat option \<Rightarrow> nat option \<Rightarrow> bool" where
  "js_ge a b = (case (a, b) of (Some x, Some y) \<Rightarrow> y \<le> x | _ \<Rightarrow> False)"




text \<open>
  \<^verbatim>\<open>checkPermission\<close> is a static method of \<^verbatim>\<open>BaseModel\<close>, inherited by every model class;
  \<open>cls\<close> is the class it is called on.  It starts \<^verbatim>\<open>this.relatedQuery('user_projects')\<close>,
  which is refused unless the class declares a relation of that name; the rows it would
  read carry a user, a project and a role.
\<close>

record user_project =
  up_user_id :: uuid
  up_project_id :: uuid
  up_role :: string

definition checkPermission ::
  "model_class \<Rightarrow> user_project list \<Rightarrow> uuid option \<Rightarrow> uuid \<Rightarrow> string \<Rightarrow> js_error + bool" where
  "checkPermission cls t userId projectId requiredRole =
     (case userId of
        None \<Rightarrow> Inr False
      | Some uid \<Rightarrow>
          if ''user_projects'' \<notin> set (relationMappings cls)
          then Inl (RelationNotFound ''user_projects'')
          else
            (case find (\<lambda>r. up_user_id r = uid \<and> up_project_id r = projectId) t of
               None \<Rightarrow> Inr False
             | Some userProject \<Rightarrow>
                 Inr (js_ge (roleHierarchy (up_role userProject)) (roleHierarchy requiredRole))))"








section \<open>ProjectDatabase: registered database targets\<close>

record connection_config =
  cc_host :: string
  cc_port :: "nat option"
  cc_database :: string
  cc_username :: string
  cc_password :: string
  cc_ssl :: "bool option"

record project_database =
  pd_id :: uuid
  pd_project_id :: uuid
  pd_name :: string
  pd_type :: string
  pd_is_primary :: bool
  pd_is_active :: bool
  pd_connection_config :: connection_config
  pd_created_by :: uuid

text \<open>The \<^verbatim>\<open>enum\<close> of the \<^verbatim>\<open>type\<close> column in \<^verbatim>\<open>ProjectDatabase.jsonSchema\<close>.\<close>

definition database_type_enum :: "string list" where
  "database_type_enum = [''postgresql'', ''mysql'', ''mongodb'', ''sqlite'', ''mssql'']"

subsection \<open>\<^verbatim>\<open>getConnectionConfig()\<close>\<close>

text \<open>
  Decimal printing of a number inside a template literal, and
  \<^verbatim>\<open>encodeURIComponent\<close> on a string held as its UTF-8 bytes: every byte outside the
  unreserved set becomes \<^verbatim>\<open>%XX\<close>.
\<close>

definition digit_char :: "nat \<Rightarrow> char" where
  "digit_char n = ''0123456789'' ! (n mod 10)"

fun string_of_nat :: "nat \<Rightarrow> string" where
  "string_of_nat n =
     (if n < 10 then [digit_char n] else string_of_nat (n div 10) @ [digit_char (n mod 10)])"

declare string_of_nat.simps [simp del]

definition uri_unreserved :: "char \<Rightarrow> bool" where
  "uri_unreserved c \<longleftrightarrow>
     c \<in> set (''ABCDEFGHIJKLMNOPQRSTUVWXYZabcdefghijklmnopqrstuvwxyz0123456789-_.!~*()''
              @ [CHR 0x27])"

definition hex_digit :: "nat \<Rightarrow> char" where
  "hex_digit n = ''0123456789ABCDEF'' ! (n mod 16)"

definition encodeURIComponent :: "string \<Rightarrow> string" where
  "encodeURIComponent s =
     concat (map (\<lambda>c. if uri_unreserved c then [c]
                       else [CHR ''%'', hex_digit (of_char c div 16), hex_digit (of_char c mod 16)]) s)"

text \<open>\<^verbatim>\<open>config.port || dflt\<close>: a missing port and the port 0 both give the default.\<close>

definition port_or :: "nat option \<Rightarrow> nat \<Rightarrow> nat" where
  "port_or p dflt = (case p of None \<Rightarrow> dflt | Some n \<Rightarrow> if n = 0 then dflt else n)"

datatype ssl_option = RejectUnauthorizedFalse | SslFalse | SslUndefined

record sql_connection =
  sc_host :: string
  sc_port :: nat
  sc_database :: string
  sc_user :: string
  sc_password :: string
  sc_ssl :: ssl_option

datatype connection_shape =
    SqlConnection sql_connection
  | MongoConnection string bool

record knex_config =
  kc_client :: string
  kc_connection :: connection_shape
  kc_pool :: "(nat \<times> nat) option"

definition UnsupportedDatabaseType :: "string \<Rightarrow> js_error" where
  "UnsupportedDatabaseType ty = Error (''Unsupported database type: '' @ ty) None"

definition getConnectionConfig :: "project_database \<Rightarrow> js_error + knex_config" where
  "getConnectionConfig this =
     (let config = pd_connection_config this; ty = pd_type this
      in if ty = ''postgresql'' then
           Inr \<lparr>kc_client = ''pg'',
                kc_connection = SqlConnection
                  \<lparr>sc_host = cc_host config, sc_port = port_or (cc_port config) 5432,
                   sc_database = cc_database config, sc_user = cc_username config,
                   sc_password = cc_password config,
                   sc_ssl = (if cc_ssl config = Some True then RejectUnauthorizedFalse else SslFalse)\<rparr>,
                kc_pool = Some (1, 5)\<rparr>
         else if ty = ''mysql'' then
           Inr \<lparr>kc_client = ''mysql2'',
                kc_connection = SqlConnection
                  \<lparr>sc_host = cc_host config, sc_port = port_or (cc_port config) 3306,
                   sc_database = cc_database config, sc_user = cc_username config,
                   sc_password = cc_password config,
                   sc_ssl = (if cc_ssl config = Some True then RejectUnauthorizedFalse else SslUndefined)\<rparr>,
                kc_pool = None\<rparr>
         else if ty = ''mongodb'' then
           Inr \<lparr>kc_client = ''mongodb'',
                kc_connection = MongoConnection
                  (''mongodb://'' @ cc_username config @ '':'' @ encodeURIComponent (cc_password config)
                     @ ''@'' @ cc_host config @ '':'' @ string_of_nat (port_or (cc_port config) 27017)
                     @ ''/'' @ cc_database config @ ''?authSource=admin'')
                  (cc_ssl config = Some True),
                kc_pool = None\<rparr>
         else Inl (UnsupportedDatabaseType ty))"

subsection \<open>The primary flag: model hooks and \<^verbatim>\<open>POST /:id/databases\<close>\<close>

record database_db =
  databases :: "project_database list"
  next_database_uuid :: nat

text \<open>
  \<^verbatim>\<open>.where('project_id', p).where('is_primary', true).patch({ is_primary: false })\<close>, as the
  route and \<^verbatim>\<open>$beforeInsert\<close> both issue it.
\<close>

definition clear_primary :: "uuid \<Rightarrow> project_database list \<Rightarrow> project_database list" where
  "clear_primary p t =
     patch_where (\<lambda>r. pd_project_id r = p \<and> pd_is_primary r) (\<lambda>r. r\<lparr>pd_is_primary := False\<rparr>) t"

definition beforeInsert_database :: "project_database \<Rightarrow> project_database list \<Rightarrow> project_database list" where
  "beforeInsert_database this t =
     (if pd_is_primary this then clear_primary (pd_project_id this) t else t)"

text \<open>
  \<^verbatim>\<open>$beforeUpdate\<close> compares the new flag with \<^verbatim>\<open>this.$before.is_primary\<close>.  This is the
  only place of the repository where \<^verbatim>\<open>$before\<close> occurs: nothing sets it, so it is
  \<^verbatim>\<open>undefined\<close> on every instance, and as soon as the new flag is set, reading
  \<^verbatim>\<open>$before.is_primary\<close> throws a \<^verbatim>\<open>TypeError\<close>.
\<close>

definition this_before :: "project_database \<Rightarrow> project_database option" where
  "this_before this = None"

definition TypeError_before :: js_error where
  "TypeError_before = TypeError_undefined ''is_primary''"

definition beforeUpdate_database ::
  "project_database \<Rightarrow> project_database list \<Rightarrow> js_error + project_database list" where
  "beforeUpdate_database this t =
     (if pd_is_primary this then
        (case this_before this of
           None \<Rightarrow> Inl TypeError_before
         | Some b \<Rightarrow>
             if pd_is_primary this \<noteq> pd_is_primary b
             then Inr (patch_where
                         (\<lambda>r. pd_project_id r = pd_project_id this \<and> pd_id r \<noteq> pd_id this
                               \<and> pd_is_primary r)
                         (\<lambda>r. r\<lparr>pd_is_primary := False\<rparr>) t)
             else Inr t)
      else Inr t)"

text \<open>
  An update of one database row through the model: the hook runs, then the row with the
  identifier of \<open>this\<close> is overwritten with \<open>this\<close>.
\<close>

definition update_database ::
  "database_db \<Rightarrow> project_database \<Rightarrow> js_error + database_db" where
  "update_database db this =
     (case beforeUpdate_database this (databases db) of
        Inl e \<Rightarrow> Inl e
      | Inr t \<Rightarrow> Inr (db\<lparr>databases := patch_where (\<lambda>r. pd_id r = pd_id this) (\<lambda>r. this) t\<rparr>))"

text \<open>
  The route handler.  It opens a transaction \<^verbatim>\<open>trx\<close>, clears the primaries of the project
  through \<^verbatim>\<open>trx\<close> when the new row is to be primary, and inserts through \<^verbatim>\<open>trx\<close>.
  \<open>insert_outcome\<close> says how the insert ends when nothing holds it up: it succeeds, it is
  refused before the model hook runs (schema validation), or the database refuses it after
  the hook has run.

  The insert runs \<^verbatim>\<open>$beforeInsert\<close>, whose patch goes through \<^verbatim>\<open>this.constructor.query()\<close>,
  that is through another connection of the pool and outside \<^verbatim>\<open>trx\<close>.  When the project
  has a primary row, \<^verbatim>\<open>trx\<close> has just patched that row and holds its lock until it commits;
  the hook's patch selects the same row and waits for the lock, while \<^verbatim>\<open>trx\<close> waits for
  the hook: the request never completes, which is the value \<open>None\<close>.  When the project has
  no primary row, both patches match nothing.  The new row's identifier comes from the
  generator.
\<close>

datatype insert_outcome = InsertOk | InsertRejected js_error | InsertFailed js_error

record database_request =
  dr_validation_errors :: bool
  dr_param_id :: uuid
  dr_is_primary :: "bool option"
  dr_name :: string
  dr_type :: string
  dr_connection_config :: connection_config
  dr_user_id :: uuid

datatype database_response =
    Created project_database
  | BadRequest
  | ServerError string

definition hook_patch_waits :: "project_database \<Rightarrow> project_database list \<Rightarrow> bool" where
  "hook_patch_waits this t \<longleftrightarrow>
     pd_is_primary this \<and>
     affected (\<lambda>r. pd_project_id r = pd_project_id this \<and> pd_is_primary r) t \<noteq> 0"

definition post_databases ::
  "insert_outcome \<Rightarrow> database_db \<Rightarrow> database_request
     \<Rightarrow> (database_response \<times> database_db) option" where
  "post_databases outcome db req =
     (if dr_validation_errors req then Some (BadRequest, db)
      else
        let projectId = dr_param_id req;
            is_primary = (dr_is_primary req = Some True);
            trx1 = (if is_primary then clear_primary projectId (databases db) else databases db);
            row = \<lparr>pd_id = next_database_uuid db, pd_project_id = projectId,
                   pd_name = dr_name req, pd_type = dr_type req,
                   pd_is_primary = is_primary, pd_is_active = True,
                   pd_connection_config = dr_connection_config req,
                   pd_created_by = dr_user_id req\<rparr>
        in case outcome of
             InsertRejected e \<Rightarrow> Some (ServerError ''Failed to add database to project'', db)
           | InsertFailed e \<Rightarrow>
               if hook_patch_waits row (databases db) then None
               else Some (ServerError ''Failed to add database to project'',
                          db\<lparr>databases := beforeInsert_database row (databases db)\<rparr>)
           | InsertOk \<Rightarrow>
               if hook_patch_waits row (databases db) then None
               else Some (Created row,
                          \<lparr>databases = beforeInsert_database row trx1 @ [row],
                           next_database_uuid = Suc (next_database_uuid db)\<rparr>))"

definition primary_count :: "project_database list \<Rightarrow> uuid \<Rightarrow> nat" where
  "primary_count t p = length (filter (\<lambda>r. pd_project_id r = p \<and> pd_is_primary r) t)"


subsection \<open>The invariant and an example table\<close>

text \<open>
  At most one primary row in every project.
\<close>

definition single_primary :: "project_database list \<Rightarrow> bool" where
  "single_primary t \<longleftrightarrow> (\<forall>p. primary_count t p \<le> 1)"

definition demo_config :: connection_config where
  "demo_config = \<lparr>cc_host = ''db.example.org'', cc_port = None, cc_database = ''app'',
                  cc_username = ''svc'', cc_password = ''secret'', cc_ssl = None\<rparr>"

definition demo_database :: "uuid \<Rightarrow> uuid \<Rightarrow> string \<Rightarrow> bool \<Rightarrow> project_database" where
  "demo_database i p ty prim =
     \<lparr>pd_id = i, pd_project_id = p, pd_name = ''main'', pd_type = ty, pd_is_primary = prim,
      pd_is_active = True, pd_connection_config = demo_config, pd_created_by = 10\<rparr>"

text \<open>
  Project 1 with a primary database 0 and a second database 1, and a request that
  registers a new primary database in project 1.
\<close>

definition one_project_db :: database_db where
  "one_project_db =
     \<lparr>databases = [demo_database 0 1 ''postgresql'' True, demo_database 1 1 ''mysql'' False],
      next_database_uuid = 2\<rparr>"

definition demo_database_request :: database_request where
  "demo_database_request =
     \<lparr>dr_validation_errors = False, dr_param_id = 1, dr_is_primary = Some True,
      dr_name = ''main'', dr_type = ''mongodb'', dr_connection_config = demo_config, dr_user_id = 10\<rparr>"


section \<open>The connection cache of the query routes\<close>

text \<open>
  \<^verbatim>\<open>dbConnections\<close> is a JavaScript \<^verbatim>\<open>Map\<close> from the string
  \<^verbatim>\<open>`${projectId}:${databaseId}`\<close> to a Knex instance, kept here as an association list in
  insertion order.  A Knex instance is known by its identity only: the \<open>n\<close>-th instance
  built by the process is the number \<open>n\<close>.  The state also records on which instances
  \<^verbatim>\<open>destroy()\<close> has been called.

  What lies outside the source is read from an environment: the rows of
  \<^verbatim>\<open>project_databases\<close>, whether the \<^verbatim>\<open>knex(...)\<close> constructor throws for a row, and whether
  the probe \<^verbatim>\<open>connection.raw('SELECT 1')\<close> fails.  \<^verbatim>\<open>destroy()\<close> returns a promise, which
  neither caller awaits: it does not throw into the caller.
\<close>

record broker_state =
  dbConnections :: "(string \<times> nat) list"
  next_handle :: nat
  destroyed :: "nat list"

definition empty_broker :: broker_state where
  "empty_broker = \<lparr>dbConnections = [], next_handle = 0, destroyed = []\<rparr>"

record broker_env =
  be_databases :: "project_database list"
  be_knex_error :: "project_database \<Rightarrow> js_error option"
  be_select1_error :: "project_database \<Rightarrow> js_error option"

definition cacheKey :: "uuid \<Rightarrow> uuid \<Rightarrow> string" where
  "cacheKey projectId databaseId = string_of_nat projectId @ '':'' @ string_of_nat databaseId"

definition DatabaseNotFound :: js_error where
  "DatabaseNotFound = Error ''Database not found or access denied'' None"

definition ConnectionFailed :: "js_error \<Rightarrow> js_error" where
  "ConnectionFailed e = Error (''Failed to connect to database: '' @ message e) None"

text \<open>
  The argument of \<^verbatim>\<open>knex(...)\<close> is built from \<^verbatim>\<open>database.type\<close> and
  \<^verbatim>\<open>database.connection_config\<close>.  The latter is a snake-case property of a fetched row,
  so it is \<^verbatim>\<open>undefined\<close>; spreading it is harmless, but \<^verbatim>\<open>database.connection_config.ssl\<close>
  throws a \<^verbatim>\<open>TypeError\<close> before \<^verbatim>\<open>knex\<close> is called.
\<close>

definition getDbConnection ::
  "broker_env \<Rightarrow> broker_state \<Rightarrow> uuid \<Rightarrow> uuid \<Rightarrow> (js_error + nat) \<times> broker_state" where
  "getDbConnection env st projectId databaseId =
     (case map_of (dbConnections st) (cacheKey projectId databaseId) of
        Some cached \<Rightarrow> (Inr cached, st)
      | None \<Rightarrow>
          (case find (\<lambda>r. pd_id r = databaseId \<and> pd_project_id r = projectId) (be_databases env) of
             None \<Rightarrow> (Inl DatabaseNotFound, st)
           | Some database \<Rightarrow>
               (case fetched_snake_case_property (pd_connection_config database) of
                  None \<Rightarrow> (Inl (TypeError_undefined ''ssl''), st)
                | Some connection_config \<Rightarrow>
                    (case be_knex_error env database of
                       Some e \<Rightarrow> (Inl e, st)
                     | None \<Rightarrow>
                         let connection = next_handle st;
                             st1 = st\<lparr>next_handle := Suc (next_handle st)\<rparr>
                         in (case be_select1_error env database of
                               Some error \<Rightarrow>
                                 (Inl (ConnectionFailed error),
                                  st1\<lparr>destroyed := destroyed st1 @ [connection]\<rparr>)
                             | None \<Rightarrow>
                                 (Inr connection,
                                  st1\<lparr>dbConnections :=
                                         AList.update (cacheKey projectId databaseId) connection
                                           (dbConnections st1)\<rparr>))))))"

text \<open>
  \<^verbatim>\<open>cleanupDbConnections\<close>: for every entry, \<^verbatim>\<open>destroy()\<close> and then \<^verbatim>\<open>delete(key)\<close>, inside
  one \<^verbatim>\<open>try\<close>.  The promise of \<^verbatim>\<open>destroy()\<close> is not awaited, so a close that fails does
  not reach the \<^verbatim>\<open>catch\<close> and the entry is deleted in every case.
\<close>

definition cleanup_entry :: "broker_state \<Rightarrow> string \<times> nat \<Rightarrow> broker_state" where
  "cleanup_entry st kc =
     st\<lparr>destroyed := destroyed st @ [snd kc],
        dbConnections := AList.delete (fst kc) (dbConnections st)\<rparr>"

definition cleanupDbConnections :: "broker_state \<Rightarrow> broker_state" where
  "cleanupDbConnections st = foldl cleanup_entry st (dbConnections st)"


text \<open>
  A run of \<^verbatim>\<open>getDbConnection\<close> calls, for any keys and under any environments, with no
  \<^verbatim>\<open>cleanupDbConnections\<close> in between.
\<close>

definition getDbConnection_calls ::
  "broker_state \<Rightarrow> (broker_env \<times> uuid \<times> uuid) list \<Rightarrow> broker_state" where
  "getDbConnection_calls st calls =
     foldl (\<lambda>s (env, p, d). snd (getDbConnection env s p d)) st calls"

text \<open>
  An example environment with one PostgreSQL database, number 2 of project 1; its
  argument is the outcome of the probe.
\<close>

definition demo_broker_env :: "js_error option \<Rightarrow> broker_env" where
  "demo_broker_env select1 =
     \<lparr>be_databases = [demo_database 2 1 ''postgresql'' True],
      be_knex_error = (\<lambda>r. None),
      be_select1_error = (\<lambda>r. select1)\<rparr>"


section \<open>\<^verbatim>\<open>POST /execute\<close>: running a query and recording it\<close>

record exec_request =
  er_validation_errors :: bool
  er_params_project_id :: "uuid option"
  er_user_id :: uuid
  er_query :: string
  er_project_id :: uuid
  er_database_id :: uuid
  er_params :: "string list option"
  er_is_ai_generated :: "bool option"

record query_result =
  qr_rowCount :: "nat option"
  qr_rows :: "string list option"
  qr_command :: "string option"

text \<open>
  One row of the query history.  \<open>qh_project_id\<close> is the owner given to \<^verbatim>\<open>.for(...)\<close>; the
  other fields are the inserted object, with \<^verbatim>\<open>result_metadata\<close> flattened.
\<close>

record history_entry =
  qh_project_id :: "uuid option"
  qh_user_id :: uuid
  qh_database_id :: uuid
  qh_query :: string
  qh_params :: "string list option"
  qh_row_count :: "nat option"
  qh_error :: "string option"
  qh_execution_time_ms :: int
  qh_is_ai_generated :: bool

text \<open>
  The environment of one request: the broker's environment, the outcome of
  \<^verbatim>\<open>dbConnection.raw(query, params)\<close>, and the three readings of \<^verbatim>\<open>Date.now()\<close> (on
  entry, after the query, in the handler of the exception).
\<close>

record exec_env =
  ee_broker :: broker_env
  ee_raw :: "nat \<Rightarrow> string \<Rightarrow> string list \<Rightarrow> js_error + query_result"
  ee_start_time :: int
  ee_end_time :: int
  ee_catch_time :: int

datatype exec_response =
    ExecBadRequest
  | ExecOk int nat
  | ExecError string "string option"

text \<open>\<^verbatim>\<open>result.rowCount || result.rows?.length || 0\<close>\<close>

definition result_row_count :: "query_result \<Rightarrow> nat" where
  "result_row_count result =
     (case qr_rowCount result of
        Some n \<Rightarrow> if n \<noteq> 0 then n
                  else (case qr_rows result of Some rs \<Rightarrow> length rs | None \<Rightarrow> 0)
      | None \<Rightarrow> (case qr_rows result of Some rs \<Rightarrow> length rs | None \<Rightarrow> 0))"

definition success_entry :: "exec_request \<Rightarrow> query_result \<Rightarrow> int \<Rightarrow> history_entry" where
  "success_entry req result executionTime =
     (let params = (case er_params req of None \<Rightarrow> [] | Some ps \<Rightarrow> ps);
          is_ai_generated = (case er_is_ai_generated req of None \<Rightarrow> False | Some b \<Rightarrow> b)
      in \<lparr>qh_project_id = Some (er_project_id req),
          qh_user_id = er_user_id req,
          qh_database_id = er_database_id req,
          qh_query = er_query req,
          qh_params = (if length params \<noteq> 0 then Some params else None),
          qh_row_count = Some (result_row_count result),
          qh_error = None,
          qh_execution_time_ms = executionTime,
          qh_is_ai_generated = is_ai_generated\<rparr>)"

definition failure_entry :: "exec_request \<Rightarrow> js_error \<Rightarrow> int \<Rightarrow> history_entry" where
  "failure_entry req error elapsed =
     \<lparr>qh_project_id = er_params_project_id req,
      qh_user_id = er_user_id req,
      qh_database_id = er_database_id req,
      qh_query = er_query req,
      qh_params = er_params req,
      qh_row_count = None,
      qh_error = Some (message error),
      qh_execution_time_ms = elapsed,
      qh_is_ai_generated = (er_is_ai_generated req = Some True)\<rparr>"

text \<open>
  Both history writes start with \<^verbatim>\<open>Project.relatedQuery('query_history')\<close>.  The class
  \<^verbatim>\<open>Project\<close> declares no relation of that name, so the call is refused before anything is
  inserted.  (The write of the failed query would moreover name its owner by
  \<^verbatim>\<open>req.params.project_id\<close>, on a route that has no path parameter.)
\<close>

definition history_insert ::
  "history_entry list \<Rightarrow> history_entry \<Rightarrow> js_error + history_entry list" where
  "history_insert history entry =
     (if ''query_history'' \<notin> set (relationMappings Project)
      then Inl (RelationNotFound ''query_history'')
      else Inr (history @ [entry]))"

text \<open>
  The \<^verbatim>\<open>catch\<close> block: the failed query is logged inside its own \<^verbatim>\<open>try\<close>, whose
  \<^verbatim>\<open>catch\<close> only prints; then the caught error is answered with status 500.
\<close>

definition execute_catch ::
  "exec_env \<Rightarrow> history_entry list \<Rightarrow> exec_request \<Rightarrow> js_error
     \<Rightarrow> exec_response \<times> history_entry list" where
  "execute_catch env history req error =
     (let entry = failure_entry req error (ee_catch_time env - ee_start_time env);
          history' = (case history_insert history entry of
                        Inr h \<Rightarrow> h
                      | Inl logError \<Rightarrow> history)
      in (ExecError (if message error = [] then ''Failed to execute query'' else message error)
                    (code error),
          history'))"

text \<open>
  The handler.  The shape of \<^verbatim>\<open>data\<close> in the success answer (rows for a read statement,
  command and row count otherwise) does not reach the history and is not part of the
  answer modelled here, which keeps \<^verbatim>\<open>meta\<close>.
\<close>

definition post_execute ::
  "exec_env \<Rightarrow> broker_state \<Rightarrow> history_entry list \<Rightarrow> exec_request
     \<Rightarrow> exec_response \<times> broker_state \<times> history_entry list" where
  "post_execute env st history req =
     (if er_validation_errors req then (ExecBadRequest, st, history)
      else
        (case getDbConnection (ee_broker env) st (er_project_id req) (er_database_id req) of
           (Inl error, st') \<Rightarrow>
             (let (resp, h) = execute_catch env history req error in (resp, st', h))
         | (Inr dbConnection, st') \<Rightarrow>
             (case ee_raw env dbConnection (er_query req)
                     (case er_params req of None \<Rightarrow> [] | Some ps \<Rightarrow> ps) of
                Inl error \<Rightarrow>
                  (let (resp, h) = execute_catch env history req error in (resp, st', h))
              | Inr result \<Rightarrow>
                  (let executionTime = ee_end_time env - ee_start_time env;
                       entry = success_entry req result executionTime
                   in (case history_insert history entry of
                         Inl error \<Rightarrow>
                           (let (resp, h) = execute_catch env history req error in (resp, st', h))
                       | Inr history' \<Rightarrow>
                           (ExecOk executionTime (result_row_count result), st', history'))))))"

text \<open>
  An example environment (the outcome of the query is its second argument), a request for
  \<^verbatim>\<open>SELECT 1\<close> on database \<open>d\<close> of project 1, and a result with one row.
\<close>

definition demo_exec_env :: "broker_env \<Rightarrow> js_error + query_result \<Rightarrow> exec_env" where
  "demo_exec_env b raw =
     \<lparr>ee_broker = b, ee_raw = (\<lambda>conn q ps. raw),
      ee_start_time = 1000, ee_end_time = 1012, ee_catch_time = 1015\<rparr>"

definition demo_request :: "uuid \<Rightarrow> exec_request" where
  "demo_request d =
     \<lparr>er_validation_errors = False, er_params_project_id = None, er_user_id = 10,
      er_query = ''SELECT 1'', er_project_id = 1, er_database_id = d,
      er_params = None, er_is_ai_generated = None\<rparr>"

definition one_row :: query_result where
  "one_row = \<lparr>qr_rowCount = Some 1, qr_rows = Some [''1''], qr_command = Some ''SELECT''\<rparr>"



section \<open>Properties of the membership operations\<close>


subsection \<open>Tables and patches\<close>

lemma find_decomp:
  "find c t = Some m \<Longrightarrow> \<exists>xs ys. t = xs @ m # ys \<and> c m \<and> (\<forall>x\<in>set xs. \<not> c x)"
proof (induction t)
  case Nil
  then show ?case by simp
next
  case (Cons a t)
  show ?case
  proof (cases "c a")
    case True
    with Cons.prems have "a = m" by simp
    with True have "a # t = [] @ m # t \<and> c m \<and> (\<forall>x\<in>set []. \<not> c x)" by simp
    then show ?thesis by blast
  next
    case False
    with Cons.prems have "find c t = Some m" by simp
    from Cons.IH[OF this] obtain xs ys where "t = xs @ m # ys" "c m" "\<forall>x\<in>set xs. \<not> c x" by blast
    with False have "a # t = (a # xs) @ m # ys \<and> c m \<and> (\<forall>x\<in>set (a # xs). \<not> c x)" by simp
    then show ?thesis by blast
  qed
qed

lemma find_app:
  "find c (xs @ ys) = (case find c xs of None \<Rightarrow> find c ys | Some x \<Rightarrow> Some x)"
  by (induction xs) simp_all

lemma distinct_map_decomp:
  "distinct (map kf (xs @ m # ys)) \<Longrightarrow> \<forall>x\<in>set xs \<union> set ys. kf x \<noteq> kf m"
  by (auto simp: image_iff)

lemma patch_where_decomp:
  "\<forall>x\<in>set xs \<union> set ys. \<not> c x \<Longrightarrow> c m \<Longrightarrow> patch_where c f (xs @ m # ys) = xs @ f m # ys"
  by (simp add: patch_where_def map_idI)

lemma patch_where_none: "\<forall>x\<in>set t. \<not> c x \<Longrightarrow> patch_where c f t = t"
  by (simp add: patch_where_def map_idI)

lemma patch_where_set:
  "r \<in> set (patch_where c f t) \<Longrightarrow> (\<exists>r0\<in>set t. c r0 \<and> r = f r0) \<or> (r \<in> set t \<and> \<not> c r)"
  by (induction t) (auto simp: patch_where_def split: if_splits)

lemma patch_where_Nil: "patch_where c f [] = []"
  by (simp add: patch_where_def)

lemma patch_where_Cons: "patch_where c f (r # t) = (if c r then f r else r) # patch_where c f t"
  by (simp add: patch_where_def)

lemma patch_where_append:
  "patch_where c f (xs @ ys) = patch_where c f xs @ patch_where c f ys"
  by (simp add: patch_where_def)

lemma map_patch_where_inv:
  "(\<And>r. g (f r) = g r) \<Longrightarrow> map g (patch_where c f t) = map g t"
  by (simp add: patch_where_def)

lemma member_key_pair: "member_key p u r \<longleftrightarrow> member_pair r = (p, u)"
  by (auto simp: member_key_def member_pair_def)

text \<open>
  In a table with distinct (project, user) pairs the row found is the only row of the pair.
\<close>

lemma getBy_decomp:
  assumes "distinct (map member_pair t)" "getByProjectAndUser t p u = Some m"
  shows "\<exists>xs ys. t = xs @ m # ys \<and> member_key p u m \<and> (\<forall>x\<in>set xs \<union> set ys. \<not> member_key p u x)"
proof -
  from find_decomp[OF assms(2)[unfolded getByProjectAndUser_def]]
  obtain xs ys where t: "t = xs @ m # ys" and m: "member_key p u m" by blast
  from assms(1) t have "\<forall>x\<in>set xs \<union> set ys. member_pair x \<noteq> member_pair m"
    using distinct_map_decomp[of member_pair xs m ys] by simp
  with m have "\<forall>x\<in>set xs \<union> set ys. \<not> member_key p u x"
    by (simp add: member_key_pair)
  with t m show ?thesis by blast
qed

lemma getBy_none:
  "getByProjectAndUser t p u = None \<Longrightarrow> \<forall>x\<in>set t. \<not> member_key p u x"
  by (simp add: getByProjectAndUser_def find_None_iff)


subsection \<open>Well-formedness is kept\<close>

text \<open>
  \<^verbatim>\<open>updateMember\<close> throws on every input, and \<^verbatim>\<open>addMember\<close> never throws the
  already-a-member error: it succeeds exactly with a role of the schema's enum, by an insert
  when the pair has no row and by the reactivation patch when it has one.
\<close>

lemma wf_members_cong:
  assumes "wf_members db"
    and "map pm_id (members db') = map pm_id (members db)"
    and "map member_pair (members db') = map member_pair (members db)"
    and "next_uuid db' = next_uuid db"
  shows "wf_members db'"
  using assms unfolding wf_members_def by simp

lemma wf_members_empty: "wf_members empty_member_db"
  by (simp add: wf_members_def empty_member_db_def)

lemma removeMember_wf:
  assumes "wf_members db" "removeMember db p u now = Inr (n, db')"
  shows "wf_members db'"
proof -
  from assms(2) have db': "db' = db\<lparr>members := patch_where (member_key p u)
       (\<lambda>r. r\<lparr>pm_is_active := False, pm_updated_at := now\<rparr>) (members db)\<rparr>"
    by (auto simp: removeMember_def Let_def split: if_splits)
  show ?thesis
    by (rule wf_members_cong[OF assms(1)])
       (simp_all add: db' map_patch_where_inv member_pair_def)
qed

lemma updateMember_throws: "\<exists>e. updateMember db p u role cps now = Inl e"
  by (simp add: updateMember_def)

lemma updateMember_wf:
  assumes "wf_members db" "updateMember db p u role cps now = Inr (m, db')"
  shows "wf_members db'"
  using assms(2) by (simp add: updateMember_def split: if_splits)

lemma addMember_never_AlreadyMember:
  "addMember db p u role ib cps now \<noteq> Inl AlreadyMember"
  by (auto simp: addMember_def fetched_snake_case_property_def Let_def AlreadyMember_def
        ValidationError_def split: option.splits)

lemma addMember_cases:
  assumes "addMember db p u role ib cps now = Inr (m, db')"
  shows "role \<in> set role_enum"
    and "getByProjectAndUser (members db) p u = None \<Longrightarrow>
           m = new_member (next_uuid db) p u role ib cps now
           \<and> db' = \<lparr>members = members db @ [m], next_uuid = Suc (next_uuid db)\<rparr>"
    and "getByProjectAndUser (members db) p u = Some ex \<Longrightarrow>
           m = reactivate role ib cps now ex
           \<and> db' = db\<lparr>members := patch_where (\<lambda>r. pm_id r = pm_id ex)
                          (reactivate role ib cps now) (members db)\<rparr>"
  using assms
  by (auto simp: addMember_def fetched_snake_case_property_def Let_def
        split: option.splits if_splits)

lemma addMember_wf:
  assumes wf: "wf_members db" and add: "addMember db p u role ib cps now = Inr (m, db')"
  shows "wf_members db'"
proof (cases "getByProjectAndUser (members db) p u")
  case None
  from addMember_cases(2)[OF add None]
  have db': "db' = \<lparr>members = members db @ [new_member (next_uuid db) p u role ib cps now],
                            next_uuid = Suc (next_uuid db)\<rparr>"
    by simp
  from getBy_none[OF None] have "(p, u) \<notin> set (map member_pair (members db))"
    by (auto simp: member_key_pair)
  with wf show ?thesis
    unfolding wf_members_def db' by (auto simp: new_member_def member_pair_def less_Suc_eq)
next
  case (Some ex)
  from addMember_cases(3)[OF add Some]
  have db': "db' = db\<lparr>members := patch_where (\<lambda>r. pm_id r = pm_id ex)
       (reactivate role ib cps now) (members db)\<rparr>"
    by simp
  show ?thesis
    by (rule wf_members_cong[OF wf])
       (simp_all add: db' map_patch_where_inv member_pair_def reactivate_def)
qed

lemma member_call_step_wf:
  assumes "wf_members db"
  shows "wf_members (member_call_step db c)"
  using assms
  by (cases c) (auto split: sum.splits dest: addMember_wf removeMember_wf updateMember_wf)

lemma member_calls_wf: "wf_members db \<Longrightarrow> wf_members (member_calls db cs)"
  unfolding member_calls_def
  by (induction cs arbitrary: db) (simp_all add: member_call_step_wf)


subsection \<open>The last administrator\<close>

text \<open>
  Calls of \<^verbatim>\<open>removeMember\<close> and \<^verbatim>\<open>updateMember\<close> that run one after the other, each to
  its end, keep an active administrator in every project of a well-formed table that has
  one.  When the reads and the patch of \<^verbatim>\<open>removeMember\<close> see the same table, the
  interleaved form is \<^verbatim>\<open>removeMember\<close> itself.
\<close>

lemma removeMember_admins:
  assumes wf: "wf_members db" and rm: "removeMember db p u now = Inr (n, db')"
    and one: "1 \<le> admin_count db q"
  shows "1 \<le> admin_count db' q"
proof -
  let ?f = "\<lambda>r. r\<lparr>pm_is_active := False, pm_updated_at := now\<rparr>"
  from rm have db': "db' = db\<lparr>members := patch_where (member_key p u) ?f (members db)\<rparr>"
    and guard: "\<not> (member_is_admin (getByProjectAndUser (members db) p u)
                   \<and> length (active_admins (members db) p) \<le> 1)"
    by (auto simp: removeMember_def Let_def split: if_splits)
  show ?thesis
  proof (cases "getByProjectAndUser (members db) p u")
    case None
    from patch_where_none[OF getBy_none[OF None]] db' have "members db' = members db" by simp
    with one show ?thesis by (simp add: admin_count_def)
  next
    case (Some m)
    from wf have "distinct (map member_pair (members db))" by (simp add: wf_members_def)
    from getBy_decomp[OF this Some] obtain xs ys where
      t: "members db = xs @ m # ys" and km: "member_key p u m"
      and others: "\<forall>x\<in>set xs \<union> set ys. \<not> member_key p u x" by blast
    from patch_where_decomp[OF others km] db' t
    have t': "members db' = xs @ ?f m # ys" by simp
    show ?thesis
    proof (cases "is_active_admin q m")
      case True
      with km have "q = p" "member_is_admin (Some m)"
        by (auto simp: is_active_admin_def member_key_def member_is_admin_def)
      with guard Some have "2 \<le> length (active_admins (members db) q)" by simp
      with True show ?thesis
        by (simp add: admin_count_def active_admins_def t t' is_active_admin_def)
    next
      case False
      with one show ?thesis
        by (auto simp: admin_count_def active_admins_def t t' is_active_admin_def)
    qed
  qed
qed

lemma member_call_step_inv:
  assumes "wf_members db" "1 \<le> admin_count db q" "\<not> is_addMember c"
  shows "wf_members (member_call_step db c) \<and> 1 \<le> admin_count (member_call_step db c) q"
proof (cases c)
  case (AddMember p u role ib cps now)
  with assms(3) show ?thesis by simp
next
  case (RemoveMember p u now)
  with assms show ?thesis
    by (auto split: sum.splits dest: removeMember_wf removeMember_admins)
next
  case (UpdateMember p u role cps now)
  with assms show ?thesis
    by (auto simp: updateMember_def split: sum.splits if_splits)
qed

lemma member_calls_inv:
  "wf_members db \<Longrightarrow> 1 \<le> admin_count db q \<Longrightarrow> \<forall>c\<in>set cs. \<not> is_addMember c
   \<Longrightarrow> 1 \<le> admin_count (member_calls db cs) q"
  unfolding member_calls_def
proof (induction cs arbitrary: db)
  case Nil
  then show ?case by simp
next
  case (Cons c cs)
  from Cons.prems have "\<not> is_addMember c" "\<forall>c\<in>set cs. \<not> is_addMember c" by simp_all
  with member_call_step_inv[OF Cons.prems(1,2)] Cons.IH show ?case by simp
qed

lemma removeMember_interleaved_same:
  "removeMember_interleaved db db p u now = removeMember db p u now"
  by (simp add: removeMember_interleaved_def removeMember_def)

lemmas member_eval_defs =
  member_calls_def addMember_def removeMember_def updateMember_def getByProjectAndUser_def
  member_key_def active_admins_def is_active_admin_def member_is_admin_def patch_where_def
  affected_def new_member_def beforeInsert_permissions_def getRolePermissions_def ROLES_def
  ROLE_ADMIN_def ROLE_EDITOR_def ROLE_VIEWER_def ROLE_CUSTOM_def empty_member_db_def
  admin_count_def reactivate_def role_enum_def fetched_snake_case_property_def Let_def
  AlreadyMember_def LastAdminViolation_remove_def LastAdminViolation_update_def
  removeMember_interleaved_def PatchAndFetchOnStaticQuery_def ValidationError_def

text \<open>
  C1.  The claim: once a project has an active administrator, the number of active
  memberships with role admin stays at least 1.  The code brings it to 0 in two ways.
  Project 1 has the single administrator 10; \<^verbatim>\<open>addMember(1, 10, 'viewer', 10)\<close> does not
  refuse the active member but patches their row to role viewer, and no administrator is
  left.  Project 1 has the administrators 10 and 11; two \<^verbatim>\<open>removeMember\<close> calls, for 10 and
  for 11, both read the table before either has patched it, both find two administrators,
  and both patches go through: no administrator is left.
\<close>

theorem C1_admin_count_reaches_zero:
  "admin_count sole_admin_db 1 = 1
   \<and> admin_count (member_calls sole_admin_db [AddMember 1 10 ''viewer'' 10 [] 102]) 1 = 0
   \<and> admin_count two_admins_db 1 = 2
   \<and> (case removeMember two_admins_db 1 10 102 of
        Inr (n, db1) \<Rightarrow>
          (case removeMember_interleaved two_admins_db db1 1 11 103 of
             Inr (n', db2) \<Rightarrow> n = 1 \<and> n' = 1 \<and> admin_count db2 1 = 0
           | Inl e \<Rightarrow> False)
      | Inl e \<Rightarrow> False)"
  by (simp add: sole_admin_db_def two_admins_db_def member_eval_defs)


subsection \<open>Removing a member\<close>

text \<open>
  A successful \<^verbatim>\<open>removeMember\<close> deletes no row and changes no identifier; afterwards every
  row of the pair is inactive, and the number it returns is the number of rows of the
  pair.  In a well-formed table the sole active administrator cannot be removed.
\<close>

lemma removeMember_soft:
  assumes "removeMember db p u now = Inr (n, db')"
  shows "map pm_id (members db') = map pm_id (members db)"
    and "length (members db') = length (members db)"
    and "\<forall>r\<in>set (members db'). member_key p u r \<longrightarrow> \<not> pm_is_active r"
    and "n = length (filter (member_key p u) (members db))"
proof -
  let ?f = "\<lambda>r. r\<lparr>pm_is_active := False, pm_updated_at := now\<rparr>"
  from assms have db': "members db' = patch_where (member_key p u) ?f (members db)"
    and n: "n = affected (member_key p u) (members db)"
    by (auto simp: removeMember_def Let_def split: if_splits)
  show "map pm_id (members db') = map pm_id (members db)"
    by (simp add: db' map_patch_where_inv)
  show "length (members db') = length (members db)"
    by (simp add: db' patch_where_def)
  show "\<forall>r\<in>set (members db'). member_key p u r \<longrightarrow> \<not> pm_is_active r"
  proof (intro ballI impI)
    fix r assume "r \<in> set (members db')" and k: "member_key p u r"
    with db' have "r \<in> set (patch_where (member_key p u) ?f (members db))" by simp
    from patch_where_set[OF this] k show "\<not> pm_is_active r" by auto
  qed
  show "n = length (filter (member_key p u) (members db))"
    by (simp add: n affected_def)
qed

lemma removeMember_sole_admin:
  assumes wf: "wf_members db"
    and m: "m \<in> set (members db)" "member_key p u m" "is_active_admin p m"
    and sole: "active_admins (members db) p = [m]"
  shows "removeMember db p u now = Inl LastAdminViolation_remove"
proof -
  from m(1,2) have "find (member_key p u) (members db) \<noteq> None"
    by (auto simp: find_None_iff)
  then obtain m' where f: "getByProjectAndUser (members db) p u = Some m'"
    by (auto simp: getByProjectAndUser_def)
  from wf have "distinct (map member_pair (members db))" by (simp add: wf_members_def)
  from getBy_decomp[OF this f] m(1,2) have "m' = m" by auto
  with f m(3) sole show ?thesis
    by (simp add: removeMember_def Let_def member_is_admin_def is_active_admin_def)
qed

text \<open>
  C8.  The claim: \<^verbatim>\<open>removeMember\<close> only deactivates the row, and it fails with the
  last-admin error exactly when the target is the sole active administrator.  The code
  also fails when the target is not an active administrator at all: in project 1, users
  10 and 11 are added as administrators and 11 is removed; the only active administrator
  is now 10, the row of 11 is inactive, and removing 11 once more is refused with
  \<^verbatim>\<open>Cannot remove the last admin from a project\<close>, because the check reads the role of the
  target's row without reading its \<^verbatim>\<open>is_active\<close> flag.
\<close>

theorem C8_removed_admin_rejected:
  "map (\<lambda>r. (pm_user_id r, pm_role r, pm_is_active r)) (members removed_admin_db)
     = [(10, ''admin'', True), (11, ''admin'', False)]
   \<and> map pm_user_id (active_admins (members removed_admin_db) 1) = [10]
   \<and> removeMember removed_admin_db 1 11 103 = Inl LastAdminViolation_remove"
  by (simp add: removed_admin_db_def member_eval_defs)

text \<open>
  C10.  When the table has no row at all for (project, user), \<^verbatim>\<open>removeMember\<close> throws
  nothing: it returns 0 affected rows and the table is unchanged.
\<close>

theorem C10_removeMember_no_row:
  assumes "\<forall>r\<in>set (members db). \<not> member_key p u r"
  shows "removeMember db p u now = Inr (0, db)"
proof -
  from assms have "getByProjectAndUser (members db) p u = None"
    by (simp add: getByProjectAndUser_def find_None_iff)
  moreover from assms have "filter (member_key p u) (members db) = []" by simp
  moreover from assms have "patch_where (member_key p u) f (members db) = members db" for f
    by (rule patch_where_none)
  ultimately show ?thesis
    by (simp add: removeMember_def Let_def member_is_admin_def affected_def)
qed

text \<open>
  User 12 has no row in project 1.
\<close>

theorem C10_witness:
  "filter (member_key 1 12) (members editor_db) = []
   \<and> removeMember editor_db 1 12 102 = Inr (0, editor_db)"
proof -
  have h: "\<forall>r\<in>set (members editor_db). \<not> member_key 1 12 r"
    by (simp add: editor_db_def member_eval_defs)
  then have "filter (member_key 1 12) (members editor_db) = []" by simp
  with C10_removeMember_no_row[OF h] show ?thesis by simp
qed


subsection \<open>Changing a role\<close>

text \<open>
  C4.  The claim: \<^verbatim>\<open>updateMember\<close> on an existing member stores the custom list for the
  role custom, and the role table's permissions for a standard role.  The code stores
  nothing: user 11 of project 1 is an editor; \<^verbatim>\<open>updateMember(1, 11, 'viewer', ['project:delete'])\<close>
  and \<^verbatim>\<open>updateMember(1, 11, 'custom', ['project:read'])\<close> both throw
  \<^verbatim>\<open>patchAndFetch can only be called for instance operations\<close>, and the table is as it was
  after both calls.
\<close>

theorem C4_updateMember_writes_nothing:
  "map (\<lambda>r. (pm_user_id r, pm_role r)) (members editor_db) = [(10, ''admin''), (11, ''editor'')]
   \<and> updateMember editor_db 1 11 ''viewer'' [''project:delete''] 102 = Inl PatchAndFetchOnStaticQuery
   \<and> updateMember editor_db 1 11 ''custom'' [''project:read''] 102 = Inl PatchAndFetchOnStaticQuery
   \<and> member_calls editor_db [UpdateMember 1 11 ''viewer'' [''project:delete''] 102,
                               UpdateMember 1 11 ''custom'' [''project:read''] 103] = editor_db"
  by (simp add: editor_db_def member_eval_defs)


subsection \<open>Adding a member\<close>

text \<open>
  With a role of the enum, \<^verbatim>\<open>addMember\<close> on a pair that has a row patches that same row
  (same identifier, same place in the table, no row added), with \<^verbatim>\<open>joined_at\<close> and
  \<^verbatim>\<open>last_accessed_at\<close> reset to null and \<^verbatim>\<open>invited_at\<close>, \<^verbatim>\<open>invited_by\<close> stamped; and after
  a successful \<^verbatim>\<open>removeMember\<close>, adding the same user again leaves exactly one row for the
  pair, which is active.
\<close>

lemma addMember_reactivates:
  assumes wf: "wf_members db" and role: "role \<in> set role_enum"
    and ex: "getByProjectAndUser (members db) p u = Some ex"
  shows "\<exists>m db' xs ys.
           addMember db p u role ib cps now = Inr (m, db')
           \<and> members db = xs @ ex # ys \<and> members db' = xs @ m # ys
           \<and> (\<forall>x\<in>set xs \<union> set ys. \<not> member_key p u x)
           \<and> next_uuid db' = next_uuid db
           \<and> pm_id m = pm_id ex \<and> pm_project_id m = p \<and> pm_user_id m = u
           \<and> pm_role m = role \<and> pm_is_active m
           \<and> pm_joined_at m = None \<and> pm_last_accessed_at m = None
           \<and> pm_invited_at m = Some now \<and> pm_invited_by m = Some ib"
proof -
  let ?f = "reactivate role ib cps now"
  let ?db' = "db\<lparr>members := patch_where (\<lambda>r. pm_id r = pm_id ex) ?f (members db)\<rparr>"
  from ex role have add: "addMember db p u role ib cps now = Inr (?f ex, ?db')"
    by (simp add: addMember_def fetched_snake_case_property_def)
  from wf have "distinct (map member_pair (members db))" by (simp add: wf_members_def)
  from getBy_decomp[OF this ex] obtain xs ys where
    t: "members db = xs @ ex # ys" and km: "member_key p u ex"
    and others: "\<forall>x\<in>set xs \<union> set ys. \<not> member_key p u x" by blast
  from wf t have ids: "\<forall>x\<in>set xs \<union> set ys. \<not> pm_id x = pm_id ex"
    using distinct_map_decomp[of pm_id xs ex ys] by (simp add: wf_members_def)
  have "patch_where (\<lambda>r. pm_id r = pm_id ex) ?f (xs @ ex # ys) = xs @ ?f ex # ys"
    by (rule patch_where_decomp[OF ids]) simp
  with t have t': "members ?db' = xs @ ?f ex # ys" by simp
  have fields: "pm_id (?f ex) = pm_id ex \<and> pm_project_id (?f ex) = p \<and> pm_user_id (?f ex) = u
           \<and> pm_role (?f ex) = role \<and> pm_is_active (?f ex)
           \<and> pm_joined_at (?f ex) = None \<and> pm_last_accessed_at (?f ex) = None
           \<and> pm_invited_at (?f ex) = Some now \<and> pm_invited_by (?f ex) = Some ib"
    using km by (simp add: reactivate_def member_key_def)
  have "next_uuid ?db' = next_uuid db" by simp
  with add t t' others fields show ?thesis by blast
qed

lemma removeMember_then_addMember:
  assumes wf: "wf_members db" and role: "role \<in> set role_enum"
    and rm: "removeMember db p u t1 = Inr (n, db1)"
  shows "\<exists>m db2. addMember db1 p u role ib cps t2 = Inr (m, db2)
           \<and> filter (member_key p u) (members db2) = [m] \<and> pm_is_active m"
proof -
  have wf1: "wf_members db1" by (rule removeMember_wf[OF wf rm])
  show ?thesis
  proof (cases "getByProjectAndUser (members db1) p u")
    case None
    let ?row = "new_member (next_uuid db1) p u role ib cps t2"
    from None role have add: "addMember db1 p u role ib cps t2
        = Inr (?row, \<lparr>members = members db1 @ [?row], next_uuid = Suc (next_uuid db1)\<rparr>)"
      by (simp add: addMember_def Let_def)
    from getBy_none[OF None] have "filter (member_key p u) (members db1) = []" by simp
    moreover have "member_key p u ?row" "pm_is_active ?row"
      by (simp_all add: member_key_def new_member_def)
    ultimately show ?thesis using add by simp
  next
    case (Some ex)
    from addMember_reactivates[OF wf1 role Some, of ib cps t2]
    obtain m db2 xs ys where add: "addMember db1 p u role ib cps t2 = Inr (m, db2)"
      and t': "members db2 = xs @ m # ys"
      and others: "\<forall>x\<in>set xs \<union> set ys. \<not> member_key p u x"
      and m: "pm_project_id m = p" "pm_user_id m = u" "pm_is_active m" by blast
    from others have "filter (member_key p u) xs = []" "filter (member_key p u) ys = []"
      by simp_all
    with t' m have "filter (member_key p u) (members db2) = [m]"
      by (simp add: member_key_def)
    with add m(3) show ?thesis by blast
  qed
qed

text \<open>
  C9.  The claim: \<^verbatim>\<open>addMember\<close> fails with the already-a-member error when an active row
  exists for (project, user).  The code does not fail: user 11 is an active editor of
  project 1, and \<^verbatim>\<open>addMember(1, 11, 'viewer', 12)\<close> succeeds, turning row 1 into a viewer
  invited by 12, with \<^verbatim>\<open>joined_at\<close> reset.
\<close>

theorem C9_active_member_added_again:
  "map (\<lambda>r. (pm_id r, pm_user_id r, pm_role r, pm_is_active r)) (members editor_db)
     = [(0, 10, ''admin'', True), (1, 11, ''editor'', True)]
   \<and> (case addMember editor_db 1 11 ''viewer'' 12 [] 200 of
        Inl e \<Rightarrow> False
      | Inr (m, db') \<Rightarrow>
          map (\<lambda>r. (pm_id r, pm_user_id r, pm_role r, pm_is_active r)) (members db')
            = [(0, 10, ''admin'', True), (1, 11, ''viewer'', True)]
          \<and> pm_id m = 1 \<and> pm_invited_by m = Some 12 \<and> pm_invited_at m = Some 200
          \<and> pm_joined_at m = None)"
  by (simp add: editor_db_def member_eval_defs)


section \<open>Properties of the role checks\<close>



text \<open>
  No model class declares a relation \<^verbatim>\<open>user_projects\<close>, so \<^verbatim>\<open>checkPermission\<close> returns
  false without a user and throws with one, on whichever class it is called.
\<close>

lemma no_user_projects_relation: "''user_projects'' \<notin> set (relationMappings cls)"
  by (cases cls) simp_all

lemma checkPermission_never_true:
  "checkPermission cls t None projectId requiredRole = Inr False"
  "checkPermission cls t (Some uid) projectId requiredRole = Inl (RelationNotFound ''user_projects'')"
  by (simp_all add: checkPermission_def no_user_projects_relation)





section \<open>Properties of the database model\<close>


subsection \<open>Connection configuration\<close>

text \<open>
  \<^verbatim>\<open>getConnectionConfig\<close> throws exactly for the types other than postgresql, mysql and
  mongodb, always the unsupported-type error; for those three it builds the engine's own
  shape, with the engine's default port when none is configured.
\<close>

lemma getConnectionConfig_unsupported_iff:
  "(\<exists>e. getConnectionConfig d = Inl e) \<longleftrightarrow> pd_type d \<notin> {''postgresql'', ''mysql'', ''mongodb''}"
  by (auto simp: getConnectionConfig_def Let_def)

lemma getConnectionConfig_error:
  "getConnectionConfig d = Inl e \<Longrightarrow> e = UnsupportedDatabaseType (pd_type d)"
  by (auto simp: getConnectionConfig_def Let_def split: if_splits)

lemma getConnectionConfig_default_ports:
  assumes "cc_port (pd_connection_config d) = None"
  shows "pd_type d = ''postgresql'' \<Longrightarrow>
           \<exists>c. getConnectionConfig d = Inr \<lparr>kc_client = ''pg'', kc_connection = SqlConnection c,
                                            kc_pool = Some (1, 5)\<rparr> \<and> sc_port c = 5432"
    and "pd_type d = ''mysql'' \<Longrightarrow>
           \<exists>c. getConnectionConfig d = Inr \<lparr>kc_client = ''mysql2'', kc_connection = SqlConnection c,
                                            kc_pool = None\<rparr> \<and> sc_port c = 3306"
    and "pd_type d = ''mongodb'' \<Longrightarrow>
           \<exists>url ssl. getConnectionConfig d = Inr \<lparr>kc_client = ''mongodb'',
                          kc_connection = MongoConnection url ssl, kc_pool = None\<rparr>"
  using assms by (simp_all add: getConnectionConfig_def Let_def port_or_def)

text \<open>
  C5.  The claim: for every type of the supported enum the configuration is built.  The
  types sqlite and mssql are in the enum of the schema, and a database of either type makes
  \<^verbatim>\<open>getConnectionConfig\<close> throw \<^verbatim>\<open>Unsupported database type\<close>: the \<^verbatim>\<open>switch\<close> has no case
  for them.
\<close>

theorem C5_sqlite_mssql_unsupported:
  "''sqlite'' \<in> set database_type_enum \<and> ''mssql'' \<in> set database_type_enum
   \<and> getConnectionConfig (demo_database 0 1 ''sqlite'' False) = Inl (UnsupportedDatabaseType ''sqlite'')
   \<and> getConnectionConfig (demo_database 0 1 ''mssql'' False) = Inl (UnsupportedDatabaseType ''mssql'')"
  by (simp add: database_type_enum_def getConnectionConfig_def demo_database_def)


subsection \<open>The primary flag\<close>

lemma primary_count_append:
  "primary_count (xs @ ys) q = primary_count xs q + primary_count ys q"
  by (simp add: primary_count_def)

lemma primary_count_Cons:
  "primary_count (r # ys) q = (if pd_project_id r = q \<and> pd_is_primary r then 1 else 0) + primary_count ys q"
  by (simp add: primary_count_def)

lemma primary_count_Nil: "primary_count [] q = 0"
  by (simp add: primary_count_def)

lemma primary_count_clear_le:
  "primary_count (patch_where c (\<lambda>r. r\<lparr>pd_is_primary := False\<rparr>) t) q \<le> primary_count t q"
  by (induction t) (simp_all add: patch_where_Nil patch_where_Cons primary_count_Cons)

lemma primary_count_clear_primary_le: "primary_count (clear_primary p t) q \<le> primary_count t q"
  unfolding clear_primary_def by (rule primary_count_clear_le)

lemma primary_count_clear_zero:
  "\<forall>r\<in>set t. pd_project_id r = p \<and> pd_is_primary r \<longrightarrow> c r
   \<Longrightarrow> primary_count (patch_where c (\<lambda>r. r\<lparr>pd_is_primary := False\<rparr>) t) p = 0"
  by (induction t) (auto simp: patch_where_Nil patch_where_Cons primary_count_Cons primary_count_Nil)

lemma primary_count_clear_primary_zero: "primary_count (clear_primary p t) p = 0"
  unfolding clear_primary_def by (rule primary_count_clear_zero) simp

lemma single_primary_clear: "single_primary t \<Longrightarrow> single_primary (clear_primary p t)"
  unfolding single_primary_def
  using primary_count_clear_primary_le le_trans by blast

lemma beforeInsert_database_single:
  "single_primary t \<Longrightarrow> single_primary (beforeInsert_database row t)"
  by (simp add: beforeInsert_database_def single_primary_clear)

text \<open>
  Registering a database: every request that completes leaves at most one primary row
  per project, and a registration as primary completes only in a project that has no
  primary row.
\<close>

lemma post_databases_single_primary:
  assumes inv: "single_primary (databases db)"
    and fin: "post_databases outcome db req = Some (resp, db')"
  shows "single_primary (databases db')"
proof (cases "dr_validation_errors req")
  case True
  with inv fin show ?thesis by (simp add: post_databases_def)
next
  case False
  let ?p = "dr_param_id req"
  let ?prim = "dr_is_primary req = Some True"
  let ?row = "\<lparr>pd_id = next_database_uuid db, pd_project_id = ?p,
                   pd_name = dr_name req, pd_type = dr_type req,
                   pd_is_primary = ?prim, pd_is_active = True,
                   pd_connection_config = dr_connection_config req,
                   pd_created_by = dr_user_id req\<rparr>"
  show ?thesis
  proof (cases outcome)
    case InsertOk
    with fin False have nowait: "\<not> hook_patch_waits ?row (databases db)"
      by (auto simp: post_databases_def Let_def split: if_splits)
    show ?thesis
    proof (cases ?prim)
      case True
      have t': "databases db' = clear_primary ?p (clear_primary ?p (databases db)) @ [?row]"
        using False InsertOk True nowait fin
        by (auto simp: post_databases_def Let_def beforeInsert_database_def)
      have "primary_count (clear_primary ?p (clear_primary ?p (databases db)) @ [?row]) q \<le> 1" for q
      proof (cases "q = ?p")
        case True
        then show ?thesis
          by (simp add: primary_count_append primary_count_clear_primary_zero primary_count_Cons)
             (simp add: primary_count_def)
      next
        case False
        from inv have "primary_count (clear_primary ?p (clear_primary ?p (databases db))) q \<le> 1"
          using single_primary_clear single_primary_def by blast
        with False show ?thesis
          by (simp add: primary_count_append primary_count_Cons) (simp add: primary_count_def)
      qed
      then show ?thesis by (simp add: t' single_primary_def)
    next
      case no: False
      have t': "databases db' = databases db @ [?row]"
        using False InsertOk no nowait fin
        by (auto simp: post_databases_def Let_def beforeInsert_database_def)
      from inv no show ?thesis
        by (simp add: t' single_primary_def primary_count_append primary_count_Cons)
           (simp add: primary_count_def)
    qed
  next
    case (InsertRejected e)
    with inv False fin show ?thesis by (auto simp: post_databases_def Let_def)
  next
    case (InsertFailed e)
    with inv False fin show ?thesis
      by (auto simp: post_databases_def Let_def beforeInsert_database_single split: if_splits)
  qed
qed

lemma post_databases_primary_completes:
  assumes "\<not> dr_validation_errors req" "dr_is_primary req = Some True"
  shows "(\<exists>r. post_databases InsertOk db req = Some r)
           \<longleftrightarrow> primary_count (databases db) (dr_param_id req) = 0"
  using assms
  by (auto simp: post_databases_def Let_def hook_patch_waits_def affected_def primary_count_def)

text \<open>
  Updating a row: an update that sets the flag throws, one that does not set it
  overwrites the row and clears nothing; so every update that completes leaves at most one
  primary row per project.
\<close>

lemma update_database_primary_throws:
  "pd_is_primary this \<Longrightarrow> update_database db this = Inl TypeError_before"
  by (simp add: update_database_def beforeUpdate_database_def this_before_def)

lemma update_database_not_primary:
  "\<not> pd_is_primary this \<Longrightarrow>
     update_database db this
       = Inr (db\<lparr>databases := patch_where (\<lambda>r. pd_id r = pd_id this) (\<lambda>r. this) (databases db)\<rparr>)"
  by (simp add: update_database_def beforeUpdate_database_def)

lemma primary_count_overwrite_le:
  "\<not> pd_is_primary this \<Longrightarrow>
     primary_count (patch_where c (\<lambda>r. this) t) q \<le> primary_count t q"
  by (induction t) (simp_all add: patch_where_Nil patch_where_Cons primary_count_Cons primary_count_Nil)

lemma update_database_single_primary:
  assumes inv: "single_primary (databases db)" and up: "update_database db this = Inr db'"
  shows "single_primary (databases db')"
proof -
  from up have np: "\<not> pd_is_primary this"
    using update_database_primary_throws[of this db] by auto
  with up update_database_not_primary[OF np, of db]
  have "databases db' = patch_where (\<lambda>r. pd_id r = pd_id this) (\<lambda>r. this) (databases db)"
    by auto
  with inv primary_count_overwrite_le[OF np] show ?thesis
    unfolding single_primary_def by (metis le_trans)
qed

lemmas database_eval_defs =
  one_project_db_def demo_database_def demo_database_request_def
  post_databases_def update_database_def beforeUpdate_database_def
  this_before_def hook_patch_waits_def affected_def Let_def

text \<open>
  C6.  The claim: registering or updating a database with \<^verbatim>\<open>is_primary = true\<close> clears the
  flag on the sibling rows, in the transaction of the write.  The code never gets there when
  a sibling is primary.  Project 1 has the primary database 0 and a second database 1.
  Registering a third database as primary does not complete: the route clears the flag of 0
  inside its transaction, then the hook of the insert patches the same row through a
  query outside that transaction and waits for it.  Updating database 1 to primary throws
  a \<^verbatim>\<open>TypeError\<close>, because the hook reads \<^verbatim>\<open>this.$before.is_primary\<close> and nothing sets
  \<^verbatim>\<open>$before\<close>.
\<close>

theorem C6_second_primary_never_set:
  "map (\<lambda>r. (pd_id r, pd_project_id r, pd_is_primary r)) (databases one_project_db)
     = [(0, 1, True), (1, 1, False)]
   \<and> dr_param_id demo_database_request = 1
   \<and> dr_is_primary demo_database_request = Some True
   \<and> post_databases InsertOk one_project_db demo_database_request = None
   \<and> update_database one_project_db (demo_database 1 1 ''mysql'' True) = Inl TypeError_before"
  by (simp add: database_eval_defs)


section \<open>Properties of the connection cache\<close>

text \<open>
  A call that finds its key cached returns the cached instance and changes nothing.  A call
  that does not never returns an instance: it throws and leaves the state as it was, so a
  run of calls that starts from the empty cache never leaves it.
\<close>

lemma getDbConnection_cached:
  "map_of (dbConnections st) (cacheKey p d) = Some h \<Longrightarrow> getDbConnection env st p d = (Inr h, st)"
  by (simp add: getDbConnection_def)

lemma getDbConnection_uncached:
  assumes "map_of (dbConnections st) (cacheKey p d) = None"
  shows "getDbConnection env st p d
           = (Inl (if find (\<lambda>r. pd_id r = d \<and> pd_project_id r = p) (be_databases env) = None
                   then DatabaseNotFound else TypeError_undefined ''ssl''), st)"
  using assms
  by (auto simp: getDbConnection_def fetched_snake_case_property_def split: option.splits)

lemma getDbConnection_failure:
  assumes "getDbConnection env st p d = (Inl e, st')"
  shows "st' = st" and "map_of (dbConnections st') (cacheKey p d) = None"
  using assms
  by (auto simp: getDbConnection_def fetched_snake_case_property_def split: option.splits)

lemma getDbConnection_state: "snd (getDbConnection env st p d) = st"
  by (auto simp: getDbConnection_def fetched_snake_case_property_def split: option.splits)

lemma getDbConnection_calls_state: "getDbConnection_calls st calls = st"
  unfolding getDbConnection_calls_def
  by (induction calls) (simp_all add: getDbConnection_state split: prod.splits)

lemma getDbConnection_from_empty:
  "\<exists>e. getDbConnection env (getDbConnection_calls empty_broker calls) p d = (Inl e, empty_broker)"
proof -
  have "map_of (dbConnections empty_broker) (cacheKey p d) = None"
    by (simp add: empty_broker_def)
  from getDbConnection_uncached[OF this] show ?thesis
    by (simp add: getDbConnection_calls_state)
qed

text \<open>
  Closing deletes every entry.
\<close>

lemma cleanup_fold_keys:
  "fst ` set (dbConnections (foldl cleanup_entry st es))
     = fst ` set (dbConnections st) - fst ` set es"
proof (induction es arbitrary: st)
  case Nil
  then show ?case by simp
next
  case (Cons kc es)
  have "fst ` set (dbConnections (cleanup_entry st kc)) = fst ` set (dbConnections st) - {fst kc}"
    by (auto simp: cleanup_entry_def AList.delete_eq)
  with Cons.IH[of "cleanup_entry st kc"] show ?case by auto
qed

lemma cleanup_empties_cache: "dbConnections (cleanupDbConnections st) = []"
proof -
  have "fst ` set (dbConnections (cleanupDbConnections st)) = {}"
    by (simp add: cleanupDbConnections_def cleanup_fold_keys)
  then show ?thesis by simp
qed

lemmas broker_eval_defs =
  getDbConnection_def demo_broker_env_def demo_database_def empty_broker_def
  Let_def DatabaseNotFound_def fetched_snake_case_property_def TypeError_undefined_def

text \<open>
  C7.  The claim: a second \<^verbatim>\<open>getDbConnection(p, d)\<close> returns the cached instance of the
  first.  The code never returns an instance for a registered database: database 2 is a
  PostgreSQL database of project 1 that accepts connections, and the first call throws
  \<^verbatim>\<open>Cannot read properties of undefined\<close> while it builds the argument of \<^verbatim>\<open>knex\<close>; nothing
  is cached, and the second call throws the same error.  Starting from the empty cache, no
  call for any database under any environment returns an instance.
\<close>

theorem C7_second_call_fails_again:
  "find (\<lambda>r. pd_id r = 2 \<and> pd_project_id r = 1) (be_databases (demo_broker_env None))
     = Some (demo_database 2 1 ''postgresql'' True)
   \<and> getDbConnection (demo_broker_env None) empty_broker 1 2
       = (Inl (TypeError_undefined ''ssl''), empty_broker)
   \<and> getDbConnection (demo_broker_env None)
        (snd (getDbConnection (demo_broker_env None) empty_broker 1 2)) 1 2
       = (Inl (TypeError_undefined ''ssl''), empty_broker)
   \<and> (\<forall>env calls p d. \<exists>e.
         getDbConnection env (getDbConnection_calls empty_broker calls) p d = (Inl e, empty_broker))"
proof -
  have concrete:
    "find (\<lambda>r. pd_id r = 2 \<and> pd_project_id r = 1) (be_databases (demo_broker_env None))
       = Some (demo_database 2 1 ''postgresql'' True)"
    "getDbConnection (demo_broker_env None) empty_broker 1 2
       = (Inl (TypeError_undefined ''ssl''), empty_broker)"
    by (simp_all add: broker_eval_defs)
  from concrete getDbConnection_from_empty show ?thesis by simp
qed


section \<open>Properties of query execution\<close>

text \<open>
  Each history write is refused, so the \<^verbatim>\<open>catch\<close> block records nothing, no request
  records an entry, and no request is answered with success.
\<close>

lemma history_insert_throws:
  "history_insert history entry = Inl (RelationNotFound ''query_history'')"
  by (simp add: history_insert_def)

lemma execute_catch_history: "snd (execute_catch env history req error) = history"
  by (simp add: execute_catch_def Let_def history_insert_throws)

lemma post_execute_records_nothing:
  "snd (snd (post_execute env st history req)) = history"
  by (auto simp: post_execute_def Let_def history_insert_throws execute_catch_def
        split: prod.splits sum.splits)

lemma post_execute_never_ok:
  "post_execute env st history req \<noteq> (ExecOk t n, st', h)"
  by (auto simp: post_execute_def Let_def history_insert_throws execute_catch_def
        split: prod.splits sum.splits)

lemmas exec_eval_defs =
  post_execute_def execute_catch_def history_insert_def failure_entry_def
  demo_exec_env_def demo_request_def RelationNotFound_def

text \<open>
  C3.  The claim: every call records exactly one history entry, also when the execution
  fails.  The code records none.  \<^verbatim>\<open>SELECT 1\<close> on the registered database 2 of project 1
  fails to connect, and \<^verbatim>\<open>SELECT 1\<close> on the unknown database 7 fails with
  \<^verbatim>\<open>Database not found or access denied\<close>; both answers carry the error of the execution, and
  the history is empty after each.  No request on any state adds an entry to the history.
\<close>

theorem C3_no_history_entry:
  "post_execute (demo_exec_env (demo_broker_env None) (Inr one_row)) empty_broker [] (demo_request 2)
     = (ExecError ''Cannot read properties of undefined (reading ssl)'' None, empty_broker, [])
   \<and> post_execute (demo_exec_env (demo_broker_env None) (Inr one_row)) empty_broker [] (demo_request 7)
     = (ExecError ''Database not found or access denied'' None, empty_broker, [])
   \<and> (\<forall>env st history req. snd (snd (post_execute env st history req)) = history)"
proof -
  have concrete:
    "post_execute (demo_exec_env (demo_broker_env None) (Inr one_row)) empty_broker [] (demo_request 2)
       = (ExecError ''Cannot read properties of undefined (reading ssl)'' None, empty_broker, [])"
    "post_execute (demo_exec_env (demo_broker_env None) (Inr one_row)) empty_broker [] (demo_request 7)
       = (ExecError ''Database not found or access denied'' None, empty_broker, [])"
    by (simp_all add: exec_eval_defs broker_eval_defs)
  from concrete post_execute_records_nothing show ?thesis by simp
qed

end
